theory Spec2Isabelle
  imports Complex_Main
begin

section \<open>Configuration\<close>

text \<open>
  The source declares \<open>CSSSelector = string\<close> and the two aliases \<open>Second\<close> and
  \<open>Percent\<close> of the host's number type. The number type is a type parameter \<open>'n\<close> of the
  model: the handlers only add and subtract such numbers and the media element compares a
  new volume with 0 and 1, so they are stated for every carrier with \<open>+\<close>, \<open>-\<close>, \<open>0\<close>,
  \<open>1\<close> and \<open>\<le>\<close>; the default tables are written with the source's decimal literals and
  need a carrier in which those literals can be read.
\<close>

type_synonym CSSSelector = string

record 'a IKeyMask =
  onNone :: 'a
  onShift :: 'a
  onCtrl :: 'a
  onShiftCtrl :: 'a

text \<open>The two picked attributes of the focus shortcut's \<open>mask\<close>.\<close>

record ModifierMask =
  shiftKey :: bool
  ctrlKey :: bool

record IFocusKey =
  key :: string
  mask :: ModifierMask

record 'n IMediaControllerOptions =
  focusKey :: IFocusKey
  progress :: "'n IKeyMask"
  volume :: "'n IKeyMask"

definition getDefaults :: "('n::field) IMediaControllerOptions" where
  "getDefaults =
     \<lparr> focusKey = \<lparr> key = ''e'', mask = \<lparr> shiftKey = False, ctrlKey = True \<rparr> \<rparr>,
       progress = \<lparr> onNone = 10, onShift = 1, onCtrl = 30, onShiftCtrl = 60 \<rparr>,
       volume = \<lparr> onNone = 0.1, onShift = 0.01, onCtrl = 0.25, onShiftCtrl = 0.5 \<rparr> \<rparr>"

section \<open>The host: events, objects, the document\<close>

text \<open>
  The attributes of a keyboard event that the controller reads. An event is a keyboard
  event exactly when \<open>keyboard\<close> holds them (\<open>event instanceof KeyboardEvent\<close>); the
  other three fields are the flags of the event that its methods set.
\<close>

record KeyboardEvent =
  key :: string
  ctrlKey :: bool
  metaKey :: bool
  shiftKey :: bool

record Event =
  keyboard :: "KeyboardEvent option"
  cancelable :: bool
  defaultPrevented :: bool
  propagationStopped :: bool
  immediatePropagationStopped :: bool

definition preventDefault :: "Event \<Rightarrow> Event" where
  "preventDefault e = (if cancelable e then e\<lparr>defaultPrevented := True\<rparr> else e)"

definition stopPropagation :: "Event \<Rightarrow> Event" where
  "stopPropagation e = e\<lparr>propagationStopped := True\<rparr>"

definition stopImmediatePropagation :: "Event \<Rightarrow> Event" where
  "stopImmediatePropagation e =
     e\<lparr>propagationStopped := True, immediatePropagationStopped := True\<rparr>"

text \<open>
  Objects of the host are addressed by reference, so that a scope and a target may be
  one and the same object. A controller instance is the value of its fields together with
  its own identity \<open>self\<close> (the object \<open>new\<close> allocates); none of its fields is assigned
  after construction. A listener is one of the two arrow functions of an instance.
\<close>

type_synonym ref = nat

record 'n MediaController =
  self :: ref
  scope :: ref
  target :: ref
  options :: "'n IMediaControllerOptions"

datatype 'n listener =
    OnScopeKeydown "'n MediaController"
  | OnMediaKeydown "'n MediaController"

text \<open>
  What the controller reads and writes of an object: its list of \<open>keydown\<close> listeners in
  the order of registration, the optional property \<open>__mediaController\<close>, and the three
  attributes of a media element.
\<close>

record 'n HostObject =
  listeners :: "'n listener list"
  mediaController :: "'n MediaController option"
  currentTime :: 'n
  volume :: 'n
  paused :: bool

record 'n World =
  heap :: "ref \<Rightarrow> 'n HostObject"
  activeElement :: "ref option"
  querySelector :: "CSSSelector \<Rightarrow> ref option"
  console :: "string list"

definition updateObject :: "ref \<Rightarrow> ('n HostObject \<Rightarrow> 'n HostObject) \<Rightarrow> 'n World \<Rightarrow> 'n World" where
  "updateObject r f w = w\<lparr>heap := (heap w)(r := f (heap w r))\<rparr>"

text \<open>
  The host appends a listener unless the list already holds it, and removing a listener
  removes every item of the list that is this listener.
\<close>

definition addEventListener :: "ref \<Rightarrow> 'n listener \<Rightarrow> 'n World \<Rightarrow> 'n World" where
  "addEventListener r l w =
     updateObject r (\<lambda>obj. if l \<in> set (listeners obj) then obj
                           else obj\<lparr>listeners := listeners obj @ [l]\<rparr>) w"

definition removeEventListener :: "ref \<Rightarrow> 'n listener \<Rightarrow> 'n World \<Rightarrow> 'n World" where
  "removeEventListener r l w =
     updateObject r (\<lambda>obj. obj\<lparr>listeners := removeAll l (listeners obj)\<rparr>) w"

text \<open>
  The host's side of the calls the controller makes: \<open>focus\<close> makes the object the
  document's active element, \<open>play\<close> and \<open>pause\<close> clear and set \<open>paused\<close>, and
  \<open>console.warn\<close> appends to the log. An assignment to \<open>currentTime\<close> stores the
  assigned value. An assignment to \<open>volume\<close> stores a value from 0 to 1 and throws the
  \<open>IndexSizeError\<close> exception for any other value, leaving the volume as it was.
\<close>

datatype DOMException = IndexSizeError

definition setCurrentTime :: "ref \<Rightarrow> 'n \<Rightarrow> 'n World \<Rightarrow> 'n World" where
  "setCurrentTime r v w = updateObject r (\<lambda>obj. obj\<lparr>currentTime := v\<rparr>) w"

definition setVolume :: "ref \<Rightarrow> ('n::{zero,one,ord}) \<Rightarrow> 'n World \<Rightarrow> DOMException + 'n World" where
  "setVolume r v w =
     (if 0 \<le> v \<and> v \<le> 1 then Inr (updateObject r (\<lambda>obj. obj\<lparr>volume := v\<rparr>) w)
      else Inl IndexSizeError)"

definition focus :: "ref \<Rightarrow> 'n World \<Rightarrow> 'n World" where
  "focus r w = w\<lparr>activeElement := Some r\<rparr>"

definition play :: "ref \<Rightarrow> 'n World \<Rightarrow> 'n World" where
  "play r w = updateObject r (\<lambda>obj. obj\<lparr>paused := False\<rparr>) w"

definition pause :: "ref \<Rightarrow> 'n World \<Rightarrow> 'n World" where
  "pause r w = updateObject r (\<lambda>obj. obj\<lparr>paused := True\<rparr>) w"

definition warn :: "string \<Rightarrow> 'n World \<Rightarrow> 'n World" where
  "warn msg w = w\<lparr>console := console w @ [msg]\<rparr>"

section \<open>The controller\<close>

definition getTimeDelta :: "'n MediaController \<Rightarrow> KeyboardEvent \<Rightarrow> 'n" where
  "getTimeDelta this e =
     (let onCtrl = (KeyboardEvent.ctrlKey e \<or> metaKey e);
          onShift = KeyboardEvent.shiftKey e
      in if onShift \<and> onCtrl then IKeyMask.onShiftCtrl (progress (options this))
         else if onShift then IKeyMask.onShift (progress (options this))
         else if onCtrl then IKeyMask.onCtrl (progress (options this))
         else IKeyMask.onNone (progress (options this)))"

definition getVolumeDelta :: "'n MediaController \<Rightarrow> KeyboardEvent \<Rightarrow> 'n" where
  "getVolumeDelta this e =
     (let onCtrl = (KeyboardEvent.ctrlKey e \<or> metaKey e);
          onShift = KeyboardEvent.shiftKey e
      in if onShift \<and> onCtrl then IKeyMask.onShiftCtrl (IMediaControllerOptions.volume (options this))
         else if onShift then IKeyMask.onShift (IMediaControllerOptions.volume (options this))
         else if onCtrl then IKeyMask.onCtrl (IMediaControllerOptions.volume (options this))
         else IKeyMask.onNone (IMediaControllerOptions.volume (options this)))"

definition onScopeKeydown :: "'n MediaController \<Rightarrow> Event \<Rightarrow> 'n World \<Rightarrow> Event \<times> 'n World" where
  "onScopeKeydown this event w =
     (case keyboard event of
        None \<Rightarrow> (event, w)
      | Some k \<Rightarrow>
          (let onCtrl = (KeyboardEvent.ctrlKey k \<or> metaKey k);
               onShift = KeyboardEvent.shiftKey k
           in if KeyboardEvent.key k = IFocusKey.key (focusKey (options this))
                 \<and> onCtrl = ModifierMask.ctrlKey (mask (focusKey (options this)))
                 \<and> onShift = ModifierMask.shiftKey (mask (focusKey (options this)))
              then (stopPropagation (stopImmediatePropagation (preventDefault event)),
                    focus (target this) w)
              else (event, w)))"

text \<open>
  The \<open>switch\<close> of the target-level handler: the value of \<open>acted\<close> and the world after
  the case of the key, or the exception that the assignment of the case throws and the
  world at that point. The handler catches nothing, so an exception ends it before
  \<open>acted\<close> is read: it returns the exception with the event and the world as they are
  then.
\<close>

definition mediaAction ::
  "('n::{plus,minus,zero,one,ord}) MediaController \<Rightarrow> KeyboardEvent \<Rightarrow> 'n World
     \<Rightarrow> (DOMException + bool) \<times> 'n World" where
  "mediaAction this k w =
     (let t = target this in
      if KeyboardEvent.key k = ''ArrowLeft'' then
        (Inr True, setCurrentTime t (currentTime (heap w t) - getTimeDelta this k) w)
      else if KeyboardEvent.key k = ''ArrowRight'' then
        (Inr True, setCurrentTime t (currentTime (heap w t) + getTimeDelta this k) w)
      else if KeyboardEvent.key k = ''ArrowUp'' then
        (case setVolume t (HostObject.volume (heap w t) + getVolumeDelta this k) w of
           Inl ex \<Rightarrow> (Inl ex, w)
         | Inr w' \<Rightarrow> (Inr True, w'))
      else if KeyboardEvent.key k = ''ArrowDown'' then
        (case setVolume t (HostObject.volume (heap w t) - getVolumeDelta this k) w of
           Inl ex \<Rightarrow> (Inl ex, w)
         | Inr w' \<Rightarrow> (Inr True, w'))
      else if KeyboardEvent.key k = '' '' then
        (Inr True, if paused (heap w t) then play t w else pause t w)
      else (Inr False, w))"

definition onMediaKeydown ::
  "('n::{plus,minus,zero,one,ord}) MediaController \<Rightarrow> Event \<Rightarrow> 'n World
     \<Rightarrow> (DOMException + unit) \<times> Event \<times> 'n World" where
  "onMediaKeydown this event w =
     (case keyboard event of
        None \<Rightarrow> (Inr (), event, w)
      | Some k \<Rightarrow>
          if activeElement w \<noteq> Some (target this) then (Inr (), event, w)
          else (case mediaAction this k w of
                  (Inl ex, w') \<Rightarrow> (Inl ex, event, w')
                | (Inr acted, w') \<Rightarrow>
                    if acted
                    then (Inr (),
                          stopPropagation (stopImmediatePropagation (preventDefault event)), w')
                    else (Inr (), event, w')))"

definition dispose :: "'n MediaController \<Rightarrow> 'n World \<Rightarrow> 'n World" where
  "dispose this w =
     (let w1 = removeEventListener (scope this) (OnMediaKeydown this) w;
          w2 = removeEventListener (target this) (OnMediaKeydown this) w1
      in updateObject (scope this) (\<lambda>obj. obj\<lparr>mediaController := None\<rparr>) w2)"

datatype Error = Error string

text \<open>
  \<open>new MediaController(scope, selector, options)\<close>: \<open>this\<close> is the identity of the new
  instance, \<open>selector\<close> is an element (\<open>Inl\<close>) or a selector string (\<open>Inr\<close>), and an
  omitted third argument is \<open>None\<close>. A \<open>throw\<close> returns the error and the world as it is
  at that point.
\<close>

definition constructor ::
  "ref \<Rightarrow> ref \<Rightarrow> ref + CSSSelector \<Rightarrow> ('n::field) IMediaControllerOptions option \<Rightarrow> 'n World
     \<Rightarrow> (Error + 'n MediaController) \<times> 'n World" where
  "constructor this scope' selector options' w =
     (let opts = (case options' of None \<Rightarrow> getDefaults | Some given \<Rightarrow> given);
          found = (case selector of
                     Inr s \<Rightarrow>
                       (case querySelector w s of
                          None \<Rightarrow> Inl (Error (''Cannot find element with selector: '' @ s))
                        | Some el \<Rightarrow> Inr el)
                   | Inl el \<Rightarrow> Inr el)
      in case found of
           Inl err \<Rightarrow> (Inl err, w)
         | Inr el \<Rightarrow>
             (let c = \<lparr> self = this, scope = scope', target = el, options = opts \<rparr>;
                  w1 = addEventListener scope' (OnScopeKeydown c) w;
                  w2 = addEventListener el (OnMediaKeydown c) w1;
                  w3 = (case mediaController (heap w2 scope') of
                          Some prior \<Rightarrow>
                            dispose prior (warn ''Overwriting existing media controller'' w2)
                        | None \<Rightarrow> w2)
              in (Inr c, updateObject scope' (\<lambda>obj. obj\<lparr>mediaController := Some c\<rparr>) w3)))"

section \<open>Delivery of an event to the listeners of an object\<close>

text \<open>
  The host calls the listeners of an object in the order of registration and stops after
  a listener that has set the event's flag of immediate propagation. An exception that a
  listener throws is reported by the host and ends that listener only: delivery goes on
  with the event and the world as the listener left them.
\<close>

fun invoke ::
  "('n::{plus,minus,zero,one,ord}) listener \<Rightarrow> Event \<Rightarrow> 'n World \<Rightarrow> Event \<times> 'n World" where
  "invoke (OnScopeKeydown c) e w = onScopeKeydown c e w"
| "invoke (OnMediaKeydown c) e w = snd (onMediaKeydown c e w)"

fun runListeners ::
  "('n::{plus,minus,zero,one,ord}) listener list \<Rightarrow> Event \<Rightarrow> 'n World \<Rightarrow> Event \<times> 'n World" where
  "runListeners [] e w = (e, w)"
| "runListeners (l # ls) e w =
     (case invoke l e w of
        (e', w') \<Rightarrow> if immediatePropagationStopped e' then (e', w') else runListeners ls e' w')"

definition deliver :: "ref \<Rightarrow> Event \<Rightarrow> ('n::{plus,minus,zero,one,ord}) World \<Rightarrow> Event \<times> 'n World" where
  "deliver r e w = runListeners (listeners (heap w r)) e w"

section \<open>The specification's notions\<close>

text \<open>
  Following the specification's words, the lookup of a modifier-keyed table by the pair of
  the shift flag and the ctrl-or-meta flag, one entry for each of the four combinations.
\<close>

fun resolveMagnitude :: "'a IKeyMask \<Rightarrow> bool \<Rightarrow> bool \<Rightarrow> 'a" where
  "resolveMagnitude table True True = onShiftCtrl table"
| "resolveMagnitude table True False = onShift table"
| "resolveMagnitude table False True = onCtrl table"
| "resolveMagnitude table False False = onNone table"


text \<open>
  Following the specification's words, the focus shortcut matches when the key strings are
  equal, the ctrl-or-meta flag of the event equals the configured ctrl flag, and the shift
  flag of the event equals the configured shift flag.
\<close>

definition matchesFocusShortcut :: "KeyboardEvent \<Rightarrow> IFocusKey \<Rightarrow> bool" where
  "matchesFocusShortcut k fk \<longleftrightarrow>
     KeyboardEvent.key k = IFocusKey.key fk
     \<and> (KeyboardEvent.ctrlKey k \<or> metaKey k) = ModifierMask.ctrlKey (mask fk)
     \<and> KeyboardEvent.shiftKey k = ModifierMask.shiftKey (mask fk)"

text \<open>
  Following the specification's words, a suppressed event: its default behaviour is
  prevented (the host cancels only a cancelable event) and its propagation is stopped, also
  to the other listeners of the same object.
\<close>

definition suppressed :: "Event \<Rightarrow> Event" where
  "suppressed e =
     e\<lparr>defaultPrevented := (cancelable e \<or> defaultPrevented e),
       propagationStopped := True,
       immediatePropagationStopped := True\<rparr>"

section \<open>Concrete inputs\<close>

text \<open>
  A world without listeners and controllers, whose objects are paused media at time 0 and
  full volume, and a fresh cancelable keydown event with the given key and the flags ctrl,
  meta and shift.
\<close>

definition blankObject :: "real HostObject" where
  "blankObject =
     \<lparr> listeners = [], mediaController = None, currentTime = 0, volume = 1, paused = True \<rparr>"

definition blankWorld :: "real World" where
  "blankWorld =
     \<lparr> heap = (\<lambda>_. blankObject), activeElement = None, querySelector = (\<lambda>_. None),
       console = [] \<rparr>"

definition keydown :: "string \<Rightarrow> bool \<Rightarrow> bool \<Rightarrow> bool \<Rightarrow> Event" where
  "keydown name ctrl meta shift =
     \<lparr> keyboard = Some \<lparr> key = name, ctrlKey = ctrl, metaKey = meta, shiftKey = shift \<rparr>,
       cancelable = True, defaultPrevented = False, propagationStopped = False,
       immediatePropagationStopped = False \<rparr>"

text \<open>An event that is not a keyboard event, such as \<open>new Event("keydown")\<close>.\<close>

definition plainEvent :: Event where
  "plainEvent =
     \<lparr> keyboard = None, cancelable = True, defaultPrevented = False,
       propagationStopped = False, immediatePropagationStopped = False \<rparr>"

text \<open>A controller with the default configuration on scope 10 and target 20.\<close>

definition exampleController :: "real MediaController" where
  "exampleController = \<lparr> self = 1, scope = 10, target = 20, options = getDefaults \<rparr>"

section \<open>Magnitude resolution\<close>

text \<open>
  C3. For every keyboard event and both tables, the magnitude is the entry of the table
  for the event's combination of shift and ctrl-or-meta: shift with ctrl gives
  \<open>onShiftCtrl\<close>, shift alone \<open>onShift\<close>, ctrl alone \<open>onCtrl\<close>, neither \<open>onNone\<close>.
\<close>

theorem magnitude_is_four_way_lookup:
  "getTimeDelta this e =
     resolveMagnitude (progress (options this))
       (KeyboardEvent.shiftKey e) (KeyboardEvent.ctrlKey e \<or> metaKey e)
   \<and> getVolumeDelta this e =
     resolveMagnitude (IMediaControllerOptions.volume (options this))
       (KeyboardEvent.shiftKey e) (KeyboardEvent.ctrlKey e \<or> metaKey e)"
  by (cases "KeyboardEvent.shiftKey e"; cases "KeyboardEvent.ctrlKey e \<or> metaKey e")
     (simp_all add: getTimeDelta_def getVolumeDelta_def)

theorem magnitude_is_four_way_lookup_witness:
  "getTimeDelta exampleController
     \<lparr> key = ''ArrowLeft'', ctrlKey = False, metaKey = True, shiftKey = True \<rparr> = 60
   \<and> getVolumeDelta exampleController
     \<lparr> key = ''ArrowUp'', ctrlKey = True, metaKey = False, shiftKey = False \<rparr> = 1 / 4
   \<and> getTimeDelta exampleController
     \<lparr> key = ''ArrowLeft'', ctrlKey = False, metaKey = False, shiftKey = True \<rparr> = 1
   \<and> getVolumeDelta exampleController
     \<lparr> key = ''ArrowUp'', ctrlKey = False, metaKey = False, shiftKey = False \<rparr> = 1 / 10"
  using magnitude_is_four_way_lookup [of exampleController
          "\<lparr> key = ''ArrowLeft'', ctrlKey = False, metaKey = True, shiftKey = True \<rparr>"]
        magnitude_is_four_way_lookup [of exampleController
          "\<lparr> key = ''ArrowUp'', ctrlKey = True, metaKey = False, shiftKey = False \<rparr>"]
        magnitude_is_four_way_lookup [of exampleController
          "\<lparr> key = ''ArrowLeft'', ctrlKey = False, metaKey = False, shiftKey = True \<rparr>"]
        magnitude_is_four_way_lookup [of exampleController
          "\<lparr> key = ''ArrowUp'', ctrlKey = False, metaKey = False, shiftKey = False \<rparr>"]
  by (simp add: exampleController_def getDefaults_def)

section \<open>Default configuration\<close>

text \<open>
  C8. The default configuration has the focus key \<open>e\<close> with ctrl required and shift not,
  the progress table 10, 1, 30, 60 and the volume table 1/10, 1/100, 1/4, 1/2, each in the
  order none, shift, ctrl, shift with ctrl.
\<close>

theorem default_configuration:
  "IFocusKey.key (focusKey (getDefaults :: ('n::field_char_0) IMediaControllerOptions)) = ''e''
   \<and> ModifierMask.ctrlKey (mask (focusKey (getDefaults :: 'n IMediaControllerOptions))) = True
   \<and> ModifierMask.shiftKey (mask (focusKey (getDefaults :: 'n IMediaControllerOptions))) = False
   \<and> progress (getDefaults :: 'n IMediaControllerOptions)
       = \<lparr> onNone = 10, onShift = 1, onCtrl = 30, onShiftCtrl = 60 \<rparr>
   \<and> IMediaControllerOptions.volume (getDefaults :: 'n IMediaControllerOptions)
       = \<lparr> onNone = 1 / 10, onShift = 1 / 100, onCtrl = 1 / 4, onShiftCtrl = 1 / 2 \<rparr>"
  by (simp add: getDefaults_def)

section \<open>The two handlers\<close>

lemma suppress_calls:
  "stopPropagation (stopImmediatePropagation (preventDefault e)) = suppressed e"
  by (simp add: stopPropagation_def stopImmediatePropagation_def preventDefault_def
        suppressed_def)

text \<open>
  C4. For a keyboard event at the scope listener: when key, ctrl-or-meta flag and shift
  flag all equal the configured ones, the target is focused and the event is suppressed;
  when any of the three differs, event and world are left as they are.
\<close>

theorem focus_shortcut:
  assumes "keyboard event = Some k"
  shows "(matchesFocusShortcut k (focusKey (options this)) \<longrightarrow>
            onScopeKeydown this event w = (suppressed event, focus (target this) w))
         \<and> (\<not> matchesFocusShortcut k (focusKey (options this)) \<longrightarrow>
            onScopeKeydown this event w = (event, w))"
  using assms by (simp add: onScopeKeydown_def matchesFocusShortcut_def suppress_calls)

theorem focus_shortcut_witness:
  "matchesFocusShortcut \<lparr> key = ''e'', ctrlKey = False, metaKey = True, shiftKey = False \<rparr>
      (focusKey (options exampleController))
   \<and> \<not> matchesFocusShortcut \<lparr> key = ''e'', ctrlKey = True, metaKey = False, shiftKey = True \<rparr>
      (focusKey (options exampleController))
   \<and> activeElement (snd (onScopeKeydown exampleController (keydown ''e'' False True False)
        blankWorld)) = Some 20
   \<and> fst (onScopeKeydown exampleController (keydown ''e'' False True False) blankWorld)
       = (keydown ''e'' False True False)
           \<lparr>defaultPrevented := True, propagationStopped := True,
            immediatePropagationStopped := True\<rparr>
   \<and> onScopeKeydown exampleController (keydown ''e'' True False True) blankWorld
       = (keydown ''e'' True False True, blankWorld)"
  using focus_shortcut [of "keydown ''e'' False True False"
          "\<lparr> key = ''e'', ctrlKey = False, metaKey = True, shiftKey = False \<rparr>"
          exampleController blankWorld]
        focus_shortcut [of "keydown ''e'' True False True"
          "\<lparr> key = ''e'', ctrlKey = True, metaKey = False, shiftKey = True \<rparr>"
          exampleController blankWorld]
  by (simp add: matchesFocusShortcut_def exampleController_def getDefaults_def keydown_def
        suppressed_def focus_def)




text \<open>
  C7. For every event at the target listener while the target is not the active element,
  whatever its key and modifiers, the handler returns without an exception and event and
  world are left as they are.
\<close>

theorem unfocused_target_passes_through:
  assumes "activeElement w \<noteq> Some (target this)"
  shows "onMediaKeydown this event w = (Inr (), event, w)"
  using assms by (simp add: onMediaKeydown_def split: option.split)

theorem unfocused_target_passes_through_witness:
  "activeElement blankWorld \<noteq> Some (target exampleController)
   \<and> onMediaKeydown exampleController (keydown ''ArrowLeft'' False False False) blankWorld
       = (Inr (), keydown ''ArrowLeft'' False False False, blankWorld)"
  using unfocused_target_passes_through
          [of blankWorld exampleController "keydown ''ArrowLeft'' False False False"]
  by (simp add: blankWorld_def)

text \<open>
  C10. For every event that is not a keyboard event, both handlers return at once, without
  an exception: event and world are left as they are.
\<close>

theorem not_keyboard_event_ignored:
  assumes "keyboard event = None"
  shows "onScopeKeydown this event w = (event, w)
         \<and> onMediaKeydown this event w = (Inr (), event, w)"
  using assms by (simp add: onScopeKeydown_def onMediaKeydown_def)

theorem not_keyboard_event_ignored_witness:
  "keyboard plainEvent = None
   \<and> onScopeKeydown exampleController plainEvent (focus 20 blankWorld)
       = (plainEvent, focus 20 blankWorld)
   \<and> onMediaKeydown exampleController plainEvent (focus 20 blankWorld)
       = (Inr (), plainEvent, focus 20 blankWorld)"
  using not_keyboard_event_ignored [of plainEvent exampleController "focus 20 blankWorld"]
  by (simp add: plainEvent_def)

section \<open>Construction and disposal\<close>

text \<open>
  C5. Construction with a selector string for which the document finds no element fails
  with the error whose message ends in the selector, and the world is as it was before:
  no listener added, no back-reference set.
\<close>

theorem missing_selector_fails:
  assumes "querySelector w selector = None"
  shows "constructor this scope' (Inr selector) options' w
           = (Inl (Error (''Cannot find element with selector: '' @ selector)), w)"
  using assms by (simp add: constructor_def)

theorem missing_selector_fails_witness:
  "querySelector blankWorld ''#player'' = None
   \<and> constructor 1 10 (Inr ''#player'') None blankWorld
       = (Inl (Error ''Cannot find element with selector: #player''), blankWorld)"
  using missing_selector_fails [of blankWorld "''#player''" 1 10 None]
  by (simp add: blankWorld_def)

text \<open>
  C9. Disposal is idempotent: after one call of \<open>dispose\<close>, any number of further calls
  leaves the world as the first call left it. (\<open>dispose\<close> has no failing branch.)
\<close>

theorem dispose_idempotent:
  "(dispose this ^^ n) (dispose this w) = dispose this w"
proof (induction n)
  case 0
  show ?case by simp
next
  case (Suc n)
  have "dispose this (dispose this w) = dispose this w"
    by (cases "scope this = target this")
       (simp_all add: dispose_def removeEventListener_def updateObject_def Let_def
          fun_upd_twist)
  with Suc show ?case by simp
qed

text \<open>
  What disposal does to the three places it touches: the target-level listener is gone
  from the target and the back-reference is gone from the scope, while the scope-level
  listener stays where it was, since the listener removed from the scope is the
  target-level one.
\<close>

lemma dispose_removes_media_listener:
  "OnMediaKeydown this \<notin> set (listeners (heap (dispose this w) (target this)))"
  by (simp add: dispose_def removeEventListener_def updateObject_def Let_def)

lemma dispose_clears_back_reference:
  "mediaController (heap (dispose this w) (scope this)) = None"
  by (simp add: dispose_def removeEventListener_def updateObject_def Let_def)

lemma dispose_keeps_scope_listener:
  "OnScopeKeydown this \<in> set (listeners (heap (dispose this w) (scope this)))
     \<longleftrightarrow> OnScopeKeydown this \<in> set (listeners (heap w (scope this)))"
  by (simp add: dispose_def removeEventListener_def updateObject_def Let_def)

text \<open>
  C1. Disposal is meant to remove both listeners, so that a later keydown at the scope or
  the target has no effect. The code does not do so: a controller with the default
  configuration is constructed on scope 10 and target 20 and then disposed. The target's list is empty and
  the back-reference is absent, but the scope-level listener is still registered, and the
  keydown of \<open>e\<close> with ctrl delivered to the scope moves the focus to the target and is
  suppressed.
\<close>

theorem dispose_leaves_scope_listener:
  "(case constructor 1 10 (Inl 20) None blankWorld of
      (Inr c, w1) \<Rightarrow>
        (let w2 = dispose c w1 in
           listeners (heap w2 10) = [OnScopeKeydown c]
           \<and> listeners (heap w2 20) = []
           \<and> mediaController (heap w2 10) = None
           \<and> (case deliver 10 (keydown ''e'' True False False) w2 of
                (e', w3) \<Rightarrow>
                  activeElement w2 = None \<and> activeElement w3 = Some 20
                  \<and> defaultPrevented e' \<and> propagationStopped e'
                  \<and> immediatePropagationStopped e'))
    | (Inl err, w1) \<Rightarrow> False)"
  by (simp add: constructor_def addEventListener_def removeEventListener_def updateObject_def
        dispose_def warn_def blankWorld_def blankObject_def deliver_def onScopeKeydown_def
        keydown_def getDefaults_def preventDefault_def stopPropagation_def
        stopImmediatePropagation_def focus_def Let_def)

text \<open>
  C2. Constructing a second controller on a scope is meant to dispose the first, so that
  the first one's listeners are inert and the scope has one active controller. The code
  does not do so: a first controller is constructed on scope 10 with target 20, then a
  second one on scope 10 with target 30. The warning is
  logged, the back-reference is the second controller and the first one's target-level
  listener is gone, but the scope holds the scope-level listeners of both, the first one's
  first; the keydown of \<open>e\<close> with ctrl delivered to the scope moves the focus to the first
  controller's target.
\<close>

theorem prior_controller_keeps_scope_listener:
  "(case constructor 1 10 (Inl 20) None blankWorld of
      (Inr c1, w1) \<Rightarrow>
        (case constructor 2 10 (Inl 30) None w1 of
           (Inr c2, w2) \<Rightarrow>
             console w2 = [''Overwriting existing media controller'']
             \<and> mediaController (heap w2 10) = Some c2
             \<and> listeners (heap w2 20) = []
             \<and> listeners (heap w2 30) = [OnMediaKeydown c2]
             \<and> listeners (heap w2 10) = [OnScopeKeydown c1, OnScopeKeydown c2]
             \<and> activeElement (snd (deliver 10 (keydown ''e'' True False False) w2)) = Some 20
         | (Inl err, w2) \<Rightarrow> False)
    | (Inl err, w1) \<Rightarrow> False)"
  by (simp add: constructor_def addEventListener_def removeEventListener_def updateObject_def
        dispose_def warn_def blankWorld_def blankObject_def deliver_def onScopeKeydown_def
        keydown_def getDefaults_def preventDefault_def stopPropagation_def
        stopImmediatePropagation_def focus_def Let_def)

end
